theory Spec2Isabelle
  imports Main
begin

section \<open>JavaScript strings\<close>

text \<open>
  A JavaScript string is modelled as a \<^typ>\<open>string\<close>: the list of its code units, each
  below 256. The protocol is line oriented ASCII, and every operation below works
  code unit by code unit.
\<close>

definition CRLF :: string where
  "CRLF = [CHR 0x0D, CHR 0x0A]"

text \<open>\<^verbatim>\<open>s.startsWith(p)\<close>. \<^verbatim>\<open>s.slice(n)\<close> with \<open>n \<ge> 0\<close> is \<^term>\<open>drop n s\<close>.\<close>

definition startsWith :: "string \<Rightarrow> string \<Rightarrow> bool" where
  "startsWith s p = (take (length p) s = p)"

text \<open>
  \<^verbatim>\<open>s.split(sep)\<close> for a non-empty separator: the pieces between the non-overlapping
  occurrences of \<open>sep\<close>, found from the left; the result has one element more than
  there are occurrences, so it is never empty. \<open>split_from sep acc s\<close> carries the
  piece read so far in \<open>acc\<close>.
\<close>

function split_from :: "string \<Rightarrow> string \<Rightarrow> string \<Rightarrow> string list" where
  "split_from sep acc [] = [acc]"
| "split_from sep acc (c # cs) =
     (if sep \<noteq> [] \<and> startsWith (c # cs) sep
      then acc # split_from sep [] (drop (length sep) (c # cs))
      else split_from sep (acc @ [c]) cs)"
  by pat_completeness auto
termination
  by (relation "measure (\<lambda>(sep, acc, s). length s)") (auto simp: neq_Nil_conv)

text \<open>With the empty separator \<^verbatim>\<open>split\<close> returns the code units one by one.\<close>

definition js_split :: "string \<Rightarrow> string \<Rightarrow> string list" where
  "js_split sep s = (if sep = [] then map (\<lambda>c. [c]) s else split_from sep [] s)"

text \<open>\<^verbatim>\<open>xs.join(sep)\<close>.\<close>

fun js_join :: "string \<Rightarrow> string list \<Rightarrow> string" where
  "js_join sep [] = []"
| "js_join sep [x] = x"
| "js_join sep (x # y # ys) = x @ sep @ js_join sep (y # ys)"

section \<open>The line framer\<close>

text \<open>
  \<^verbatim>\<open>_dataHandler\<close>, without the calls of \<^verbatim>\<open>_lineHandler\<close>: from the carry-over buffer and a
  chunk, the new buffer and the lines handed to \<^verbatim>\<open>_lineHandler\<close>, in the order of the
  calls.
  \<^verbatim>\<open>
  this._buffer += data.toString();
  let lines = this._buffer.split("\r\n");
  if (lines.length > 1) {
      if (lines[lines.length - 1] === "") { this._buffer = ""; }
      else { this._buffer = lines.pop() || ""; }
      for (let i = 0; i < lines.length; i++) { this._lineHandler(lines[i]); }
  }
  \<close>
  Only the second branch removes the last element of \<open>lines\<close>.
\<close>

definition frame :: "string \<Rightarrow> string \<Rightarrow> string \<times> string list" where
  "frame buf data =
     (let buf1 = buf @ data;
          lines = js_split CRLF buf1
      in if length lines > 1
         then (if last lines = [] then ([], lines)
               else (last lines, butlast lines))
         else (buf1, []))"

text \<open>A sequence of chunks: the final buffer and all the lines delivered, in order.\<close>

fun feed :: "string \<Rightarrow> string list \<Rightarrow> string \<times> string list" where
  "feed buf [] = (buf, [])"
| "feed buf (d # ds) =
     (let (buf1, out1) = frame buf d;
          (buf2, out2) = feed buf1 ds
      in (buf2, out1 @ out2))"


section \<open>More of the JavaScript library\<close>

text \<open>
  White space as \<^verbatim>\<open>trim\<close> and \<^verbatim>\<open>parseInt\<close> see it, among the code units below 256:
  tab, line feed, vertical tab, form feed, carriage return, space and the no-break space.
\<close>

definition is_js_space :: "char \<Rightarrow> bool" where
  "is_js_space c = (c \<in> set [CHR 0x09, CHR 0x0A, CHR 0x0B, CHR 0x0C, CHR 0x0D, CHR 0x20, CHR 0xA0])"

definition js_trim :: "string \<Rightarrow> string" where
  "js_trim s = rev (dropWhile is_js_space (rev (dropWhile is_js_space s)))"

text \<open>
  \<^verbatim>\<open>s.replace(pat, rep)\<close> with a string pattern: the first occurrence of \<open>pat\<close> is replaced,
  and nothing else. (The replacement strings of the source are empty, so the \<^verbatim>\<open>$\<close>
  patterns of a replacement string do not arise.)
\<close>

fun js_replace :: "string \<Rightarrow> string \<Rightarrow> string \<Rightarrow> string" where
  "js_replace pat rep [] = (if pat = [] then rep else [])"
| "js_replace pat rep (c # cs) =
     (if startsWith (c # cs) pat then rep @ drop (length pat) (c # cs)
      else c # js_replace pat rep cs)"

subsection \<open>Numbers\<close>

text \<open>
  The numbers of the source are timestamps and hop counts read by \<^verbatim>\<open>parseInt\<close>: an
  integer-valued double, an infinity, or \<^verbatim>\<open>NaN\<close>. \<open>Fin 0\<close> stands for both zeros, which
  \<^verbatim>\<open>==\<close> and \<^verbatim>\<open><\<close> do not tell apart.
\<close>

datatype jsnum = NaN | Fin int | PosInf | NegInf

text \<open>The number of binary digits of a non-negative integer.\<close>

function bitlen :: "int \<Rightarrow> nat" where
  "bitlen n = (if n \<le> 0 then 0 else Suc (bitlen (n div 2)))"
  by pat_completeness auto
termination
  by (relation "measure nat") auto

text \<open>
  The double nearest to a non-negative integer, ties to even: exact below \<open>2^53\<close>;
  above, the 53 leading binary digits are kept and rounded, and a result of \<open>2^1024\<close>
  or more is the infinity.
\<close>

definition round_double :: "int \<Rightarrow> jsnum" where
  "round_double n =
     (if n < 2 ^ 53 then Fin n
      else let e = bitlen n - 53;
               q = n div 2 ^ e;
               r = n mod 2 ^ e;
               half = 2 ^ (e - 1);
               q1 = (if half < r \<or> (r = half \<and> odd q) then q + 1 else q)
           in if 2 ^ 1024 \<le> q1 * 2 ^ e then PosInf else Fin (q1 * 2 ^ e))"

definition js_neg :: "jsnum \<Rightarrow> jsnum" where
  "js_neg x = (case x of NaN \<Rightarrow> NaN | Fin i \<Rightarrow> Fin (- i) | PosInf \<Rightarrow> NegInf | NegInf \<Rightarrow> PosInf)"

text \<open>\<^verbatim>\<open>a == b\<close> and \<^verbatim>\<open>a < b\<close> on numbers: every comparison with \<^verbatim>\<open>NaN\<close> is false.\<close>

definition js_eq :: "jsnum \<Rightarrow> jsnum \<Rightarrow> bool" where
  "js_eq a b = (a \<noteq> NaN \<and> a = b)"

fun js_lt :: "jsnum \<Rightarrow> jsnum \<Rightarrow> bool" where
  "js_lt (Fin a) (Fin b) = (a < b)"
| "js_lt (Fin a) PosInf = True"
| "js_lt NegInf (Fin b) = True"
| "js_lt NegInf PosInf = True"
| "js_lt _ _ = False"

text \<open>
  \<^verbatim>\<open>parseInt(s)\<close> with no radix: leading white space is skipped, then an optional sign,
  then \<^verbatim>\<open>0x\<close> or \<^verbatim>\<open>0X\<close> selects radix 16 (radix 10 otherwise); the longest run of digits
  of the radix is the value, anything after it is ignored, and no digit at all gives
  \<^verbatim>\<open>NaN\<close>. (Beyond twenty significant decimal digits the language lets an implementation
  approximate; the model reads every digit.)
\<close>

definition digit_value :: "int \<Rightarrow> char \<Rightarrow> int option" where
  "digit_value radix c =
     (let n = (of_char c :: int);
          v = (if 48 \<le> n \<and> n \<le> 57 then Some (n - 48)
               else if 97 \<le> n \<and> n \<le> 122 then Some (n - 87)
               else if 65 \<le> n \<and> n \<le> 90 then Some (n - 55)
               else None)
      in case v of None \<Rightarrow> None | Some d \<Rightarrow> if d < radix then Some d else None)"

definition digits_value :: "int \<Rightarrow> string \<Rightarrow> int" where
  "digits_value radix z = foldl (\<lambda>acc c. acc * radix + (case digit_value radix c of None \<Rightarrow> 0 | Some d \<Rightarrow> d)) 0 z"

definition parseInt :: "string \<Rightarrow> jsnum" where
  "parseInt s =
     (let s1 = dropWhile is_js_space s;
          negative = startsWith s1 ''-'';
          s2 = (if startsWith s1 ''-'' \<or> startsWith s1 ''+'' then drop 1 s1 else s1);
          hex = (startsWith s2 ''0x'' \<or> startsWith s2 ''0X'');
          radix = (if hex then 16 else 10);
          s3 = (if hex then drop 2 s2 else s2);
          z = takeWhile (\<lambda>c. digit_value radix c \<noteq> None) s3
      in if z = [] then NaN
         else if negative then js_neg (round_double (digits_value radix z))
         else round_double (digits_value radix z))"



section \<open>The data model\<close>

text \<open>
  The objects of the source are shared and mutated in place: the \<^verbatim>\<open>Member\<close> installed by
  a join is one object, held by the channel's member map and by the user's membership
  map, and a \<^verbatim>\<open>MODE\<close> changes its prefix through the channel's map alone. The model
  therefore keeps users, channels and members in three heaps, addressed by
  references, and every dictionary of objects holds references. A heap is total; the
  counters \<open>next_user\<close>, \<open>next_channel\<close> and \<open>next_member\<close> give the next unused
  address to an object literal of the source.

  A dictionary is a plain JavaScript object; the model takes it as a map and leaves
  out the properties an object inherits from \<^verbatim>\<open>Object.prototype\<close> (the key
  \<^verbatim>\<open>constructor\<close>, for one).

  Where two types of the source share a field name, the model's field carries the
  type's name: \<open>user_uid\<close>, \<open>user_timestamp\<close>, \<open>channel_users\<close>. The optional fields
  \<^verbatim>\<open>local\<close>, \<^verbatim>\<open>away\<close> and \<^verbatim>\<open>moddata\<close> of a user, which no operation below reads or writes,
  are left out.
\<close>

type_synonym ref = nat

record Member =
  uid :: string
  prefix :: string

record User =
  nickname :: string
  hopcount :: jsnum
  user_timestamp :: jsnum
  username :: string
  hostname :: string
  user_uid :: string
  servicestamp :: string
  usermodes :: string
  virtualhost :: string
  cloakedhost :: string
  ip :: string
  gecos :: string
  memberships :: "string \<rightharpoonup> ref"

record Channel =
  name :: string
  timestamp :: jsnum
  modes :: string
  channel_users :: "string \<rightharpoonup> ref"
  bans :: "string list"
  excepts :: "string list"
  inviteExcepts :: "string list"

text \<open>The client: \<^verbatim>\<open>_options.sid\<close>, the framer's buffer, the write queue, the three stores.\<close>

record client =
  sid :: string
  buffer :: string
  writebuffer :: "string list"
  users :: "string \<rightharpoonup> ref"
  usersByNick :: "string \<rightharpoonup> ref"
  channels :: "string \<rightharpoonup> ref"
  destroyed :: bool
  user_heap :: "ref \<Rightarrow> User"
  channel_heap :: "ref \<Rightarrow> Channel"
  member_heap :: "ref \<Rightarrow> Member"
  next_user :: ref
  next_channel :: ref
  next_member :: ref

definition no_user :: User where
  "no_user = \<lparr>nickname = [], hopcount = NaN, user_timestamp = NaN, username = [],
     hostname = [], user_uid = [], servicestamp = [], usermodes = [], virtualhost = [],
     cloakedhost = [], ip = [], gecos = [], memberships = Map.empty\<rparr>"

definition no_channel :: Channel where
  "no_channel = \<lparr>name = [], timestamp = NaN, modes = [], channel_users = Map.empty,
     bans = [], excepts = [], inviteExcepts = []\<rparr>"

text \<open>A client as the constructor leaves it: empty stores, empty buffers.\<close>

definition new_client :: "string \<Rightarrow> client" where
  "new_client s = \<lparr>sid = s, buffer = [], writebuffer = [], users = Map.empty,
     usersByNick = Map.empty, channels = Map.empty, destroyed = False,
     user_heap = (\<lambda>_. no_user), channel_heap = (\<lambda>_. no_channel),
     member_heap = (\<lambda>_. \<lparr>uid = [], prefix = []\<rparr>),
     next_user = 0, next_channel = 0, next_member = 0\<rparr>"

text \<open>Assignments to the fields of an object in a heap.\<close>

definition update_user :: "ref \<Rightarrow> (User \<Rightarrow> User) \<Rightarrow> client \<Rightarrow> client" where
  "update_user r f st = st\<lparr>user_heap := (user_heap st)(r := f (user_heap st r))\<rparr>"

definition update_channel :: "ref \<Rightarrow> (Channel \<Rightarrow> Channel) \<Rightarrow> client \<Rightarrow> client" where
  "update_channel r f st = st\<lparr>channel_heap := (channel_heap st)(r := f (channel_heap st r))\<rparr>"

definition update_member :: "ref \<Rightarrow> (Member \<Rightarrow> Member) \<Rightarrow> client \<Rightarrow> client" where
  "update_member r f st = st\<lparr>member_heap := (member_heap st)(r := f (member_heap st r))\<rparr>"

text \<open>
  What a call leaves: it returns, or it throws and the state keeps the mutations made
  before the throw. \<open>NotModelled\<close> marks a line whose command this development does
  not cover.
\<close>

datatype error = TypeError | Error string

datatype outcome = Done client | Threw error client | NotModelled

section \<open>The mode codec\<close>

definition ModeToPrefix :: "char \<rightharpoonup> string" where
  "ModeToPrefix = map_of [(CHR ''v'', ''+''), (CHR ''h'', ''%''), (CHR ''o'', ''@''),
     (CHR ''a'', ''~''), (CHR ''q'', ''*'')]"

text \<open>
  The flag set \<^verbatim>\<open>newModes\<close> is an object used as a set of one-character keys; the model
  is the list \<^verbatim>\<open>Object.keys\<close> returns. Keys that are array indices (here the digits)
  come first in ascending order, the other keys follow in the order of their first
  assignment.
\<close>

definition is_index_key :: "char \<Rightarrow> bool" where
  "is_index_key c = (c \<in> set ''0123456789'')"

definition key_before :: "char \<Rightarrow> char \<Rightarrow> bool" where
  "key_before k c = (is_index_key c \<and> (of_char c :: int) < of_char k)"

definition key_set :: "char \<Rightarrow> string \<Rightarrow> string" where
  "key_set k ks =
     (if k \<in> set ks then ks
      else if is_index_key k then takeWhile (key_before k) ks @ k # dropWhile (key_before k) ks
      else ks @ [k])"

definition key_delete :: "char \<Rightarrow> string \<Rightarrow> string" where
  "key_delete k ks = filter (\<lambda>c. c \<noteq> k) ks"

text \<open>
  \<^verbatim>\<open>for (let mode of s) { if (mode == "+") continue; newModes[mode] = true; }\<close>
\<close>

definition add_flags :: "string \<Rightarrow> string \<Rightarrow> string" where
  "add_flags s ks = fold (\<lambda>mode ks. if mode = CHR ''+'' then ks else key_set mode ks) s ks"


section \<open>The command dispatcher\<close>

text \<open>
  \<^verbatim>\<open>_lineHandler\<close> splits the line at single spaces into \<open>parts\<close>. \<^verbatim>\<open>consumePart()\<close> returns
  \<open>parts[partsConsumed]\<close> (\<^verbatim>\<open>undefined\<close> past the end, here \<open>None\<close>), appends it to
  \<open>consumed\<close> and advances the counter; so \<open>consumed\<close> is always the first
  \<open>partsConsumed\<close> parts, and the model keeps the counter only. \<^verbatim>\<open>reconstruct()\<close> joins
  \<open>consumed\<close> with spaces, an \<^verbatim>\<open>undefined\<close> element printing as the empty string.

  The callbacks (\<^verbatim>\<open>onRaw\<close>, \<^verbatim>\<open>onUID\<close>, \<^verbatim>\<open>onNick\<close>, \<^verbatim>\<open>onSJoin\<close>, \<^verbatim>\<open>onMode\<close>, \<^verbatim>\<open>onCommand\<close>, ...) are
  at their defaults, which do nothing.
\<close>

definition consumePart :: "string list \<Rightarrow> nat \<Rightarrow> string option" where
  "consumePart parts n = (if n < length parts then Some (parts ! n) else None)"

definition reconstruct :: "string list \<Rightarrow> nat \<Rightarrow> string" where
  "reconstruct parts n =
     js_join '' '' (map (\<lambda>i. case consumePart parts i of None \<Rightarrow> [] | Some part \<Rightarrow> part) [0..<n])"

subsection \<open>UID and NICK\<close>

text \<open>
  \<^verbatim>\<open>UID\<close> consumes eleven parts after the command and takes the rest of the line as the
  real name. With fewer than thirteen parts the source stores \<^verbatim>\<open>undefined\<close> in the
  fields of the user; the model has no such users and leaves those lines out.
\<close>

definition handle_UID :: "client \<Rightarrow> string \<Rightarrow> string list \<Rightarrow> outcome" where
  "handle_UID st line parts =
     (if length parts < 13 then NotModelled
      else let user = \<lparr>nickname = parts ! 2, hopcount = parseInt (parts ! 3),
                 user_timestamp = parseInt (parts ! 4), username = parts ! 5,
                 hostname = parts ! 6, user_uid = parts ! 7, servicestamp = parts ! 8,
                 usermodes = parts ! 9, virtualhost = parts ! 10, cloakedhost = parts ! 11,
                 ip = parts ! 12, gecos = drop (length (reconstruct parts 13) + 2) line,
                 memberships = Map.empty\<rparr>;
               r = next_user st
           in Done (st\<lparr>user_heap := (user_heap st)(r := user), next_user := Suc r,
                 users := (users st)(user_uid user \<mapsto> r),
                 usersByNick := (usersByNick st)(nickname user \<mapsto> r)\<rparr>))"

text \<open>
  \<^verbatim>\<open>
  delete this.usersByNick[this.users[source].nickname];
  this.users[source].nickname = parts[2];
  this.usersByNick[parts[2]] = this.users[source];
  \<close>
  An unknown source is a property read on \<^verbatim>\<open>undefined\<close>. A line without a new nickname
  would store \<^verbatim>\<open>undefined\<close> and is left out.
\<close>

definition handle_NICK :: "client \<Rightarrow> string \<Rightarrow> string list \<Rightarrow> outcome" where
  "handle_NICK st source parts =
     (case users st source of
        None \<Rightarrow> Threw TypeError st
      | Some r \<Rightarrow>
          if length parts < 3 then NotModelled
          else let st1 = st\<lparr>usersByNick := (usersByNick st)(nickname (user_heap st r) := None)\<rparr>;
                   st2 = update_user r (\<lambda>u. u\<lparr>nickname := parts ! 2\<rparr>) st1
               in Done (st2\<lparr>usersByNick := (usersByNick st2)(parts ! 2 \<mapsto> r)\<rparr>))"

subsection \<open>SJOIN\<close>

text \<open>
  A member token is matched against \<^verbatim>\<open>/^([^\w]*)([0-9A-Z]{3,}$)/\<close>. No character is both
  outside \<^verbatim>\<open>\w\<close> and in \<^verbatim>\<open>[0-9A-Z]\<close>, so the first group can only be the whole leading
  run of characters outside \<^verbatim>\<open>\w\<close>, and the token matches when the rest is three or
  more characters of \<^verbatim>\<open>[0-9A-Z]\<close>. The result is the pair of the two groups.
\<close>

definition is_word_char :: "char \<Rightarrow> bool" where
  "is_word_char c =
     (c \<in> set ''abcdefghijklmnopqrstuvwxyzABCDEFGHIJKLMNOPQRSTUVWXYZ0123456789_'')"

definition is_id_char :: "char \<Rightarrow> bool" where
  "is_id_char c = (c \<in> set ''0123456789ABCDEFGHIJKLMNOPQRSTUVWXYZ'')"

definition sjoin_match :: "string \<Rightarrow> (string \<times> string) option" where
  "sjoin_match i =
     (let p = takeWhile (\<lambda>c. \<not> is_word_char c) i;
          u = dropWhile (\<lambda>c. \<not> is_word_char c) i
      in if 3 \<le> length u \<and> list_all is_id_char u then Some (p, u) else None)"

text \<open>
  The loop over the tokens of the burst, and its body \<open>sjoin_step\<close>. \<open>c\<close> is the
  channel object, \<open>unsafe\<close> the flag of a burst newer than the local channel. An
  unknown member throws (a property read on \<^verbatim>\<open>undefined\<close>) and ends the loop.
  \<^verbatim>\<open>
  for (let i of sjoinbuffer) {
      if (i == "") continue;
      if (i.startsWith("&")) { channel.bans.push(i.slice(1)); continue; }
      if (i.startsWith('"')) { channel.excepts.push(i.slice(1)); continue; }
      if (i.startsWith("'")) { channel.inviteExcepts.push(i.slice(1)); continue; }
      let match = i.match(regex) || [i, "", i];
      prefix = unsafe ? "" : match[1];
      uid = match[2];
      let user = this.users[uid];
      let membership = { uid: user.uid, prefix: prefix };
      channel.users[user.nickname] = membership;
      user.memberships[name] = membership;
  }
  \<close>
\<close>

definition sjoin_step :: "client \<Rightarrow> ref \<Rightarrow> string \<Rightarrow> bool \<Rightarrow> string \<Rightarrow> (error \<times> client) + client" where
  "sjoin_step st c nm unsafe i =
     (if i = [] then Inr st
      else if startsWith i ''&'' then
        Inr (update_channel c (\<lambda>ch. ch\<lparr>bans := bans ch @ [drop 1 i]\<rparr>) st)
      else if startsWith i [CHR 0x22] then
        Inr (update_channel c (\<lambda>ch. ch\<lparr>excepts := excepts ch @ [drop 1 i]\<rparr>) st)
      else if startsWith i [CHR 0x27] then
        Inr (update_channel c (\<lambda>ch. ch\<lparr>inviteExcepts := inviteExcepts ch @ [drop 1 i]\<rparr>) st)
      else
        let (p, uid) = (case sjoin_match i of None \<Rightarrow> ([], i) | Some m \<Rightarrow> m);
            prefix = (if unsafe then [] else p)
        in case users st uid of
             None \<Rightarrow> Inl (TypeError, st)
           | Some u \<Rightarrow>
               let user = user_heap st u;
                   m = next_member st;
                   st1 = st\<lparr>member_heap := (member_heap st)(m := \<lparr>uid = user_uid user, prefix = prefix\<rparr>),
                           next_member := Suc m\<rparr>;
                   st2 = update_channel c
                           (\<lambda>ch. ch\<lparr>channel_users := (channel_users ch)(nickname user \<mapsto> m)\<rparr>) st1
               in Inr (update_user u (\<lambda>x. x\<lparr>memberships := (memberships x)(nm \<mapsto> m)\<rparr>) st2))"

fun sjoin_loop :: "client \<Rightarrow> ref \<Rightarrow> string \<Rightarrow> bool \<Rightarrow> string list \<Rightarrow> (error \<times> client) + client" where
  "sjoin_loop st c nm unsafe [] = Inr st"
| "sjoin_loop st c nm unsafe (i # rest) =
     (case sjoin_step st c nm unsafe i of
        Inl thrown \<Rightarrow> Inl thrown
      | Inr st1 \<Rightarrow> sjoin_loop st1 c nm unsafe rest)"

text \<open>The mode string a burst announces: the part after the name when it starts with \<^verbatim>\<open>+\<close>.\<close>

definition sjoin_modes :: "string list \<Rightarrow> string" where
  "sjoin_modes parts = (if startsWith (parts ! 4) ''+'' then parts ! 4 else [])"

text \<open>The tokens of the burst: what follows the consumed parts and \<^verbatim>\<open>" :"\<close>, trimmed, split at spaces.\<close>

definition sjoin_tokens :: "string \<Rightarrow> string list \<Rightarrow> string list option" where
  "sjoin_tokens line parts =
     (let n = (if startsWith (parts ! 4) ''+'' then 5 else 4)
      in case js_split (reconstruct parts n @ '' :'') line of
           _ # tail # _ \<Rightarrow> Some (js_split '' '' (js_trim tail))
         | _ \<Rightarrow> None)"

text \<open>
  The first half of the handler: the channel object, the state once the modes are
  resolved, and the flag \<open>unsafe\<close>.
  \<^verbatim>\<open>
  let channel = this.channels[name] || { timestamp: timestamp, name: name, modes: modes,
      users: {}, bans: [], excepts: [], inviteExcepts: [] };
  let unsafe = false;
  if (this.channels[name]) {
      let incumbent = this.channels[name];
      if (timestamp == incumbent.timestamp) {
          let newModes = {};
          for (let mode of modes) { if (mode == "+") continue; newModes[mode] = true; }
          for (let mode of incumbent.modes) { if (mode == "+") continue; newModes[mode] = true; }
          channel.modes = Object.keys(newModes).join("");
      } else if (timestamp < incumbent.timestamp) { channel.modes = modes; }
      else { unsafe = true; }
  }
  \<close>
  With a channel in the store, \<open>channel\<close> and \<open>incumbent\<close> are that one object; without,
  \<open>channel\<close> is a new object, not yet in the store.
\<close>

definition sjoin_resolve :: "client \<Rightarrow> string list \<Rightarrow> ref \<times> client \<times> bool" where
  "sjoin_resolve st parts =
     (let ts = parseInt (parts ! 2);
          nm = parts ! 3;
          ms = sjoin_modes parts
      in case channels st nm of
           None \<Rightarrow>
             (next_channel st,
              st\<lparr>channel_heap := (channel_heap st)(next_channel st :=
                    \<lparr>name = nm, timestamp = ts, modes = ms, channel_users = Map.empty,
                     bans = [], excepts = [], inviteExcepts = []\<rparr>),
                 next_channel := Suc (next_channel st)\<rparr>,
              False)
         | Some c \<Rightarrow>
             (let incumbent = channel_heap st c
              in if js_eq ts (timestamp incumbent) then
                   (c, update_channel c (\<lambda>ch. ch\<lparr>modes := add_flags (modes incumbent) (add_flags ms [])\<rparr>) st,
                    False)
                 else if js_lt ts (timestamp incumbent) then
                   (c, update_channel c (\<lambda>ch. ch\<lparr>modes := ms\<rparr>) st, False)
                 else (c, st, True)))"

text \<open>
  The handler. With four parts or fewer \<^verbatim>\<open>parts[partsConsumed].startsWith\<close> is a call on
  \<^verbatim>\<open>undefined\<close>, before any mutation. A line without \<^verbatim>\<open>" :"\<close> after the consumed parts
  throws at \<^verbatim>\<open>.trim()\<close>, after the modes have been resolved. The channel object enters
  the store after the loop (\<^verbatim>\<open>this.channels[name] = channel\<close>).
\<close>

definition handle_SJOIN :: "client \<Rightarrow> string \<Rightarrow> string list \<Rightarrow> outcome" where
  "handle_SJOIN st line parts =
     (if length parts \<le> 4 then Threw TypeError st
      else
        let (c, st2, unsafe) = sjoin_resolve st parts
        in case sjoin_tokens line parts of
             None \<Rightarrow> Threw TypeError st2
           | Some sjoinbuffer \<Rightarrow>
               (case sjoin_loop st2 c (parts ! 3) unsafe sjoinbuffer of
                  Inl (e, st3) \<Rightarrow> Threw e st3
                | Inr st3 \<Rightarrow> Done (st3\<lparr>channels := (channels st3)(parts ! 3 \<mapsto> c)\<rparr>)))"

subsection \<open>MODE\<close>

text \<open>
  The symbol of a rank mode. The source indexes \<^verbatim>\<open>ModeToPrefix\<close> only with one of
  \<^verbatim>\<open>vhoaq\<close>; any other index would give \<^verbatim>\<open>undefined\<close>, which a string concatenation and
  \<^verbatim>\<open>replace\<close> print as \<^verbatim>\<open>"undefined"\<close>.
\<close>

definition rank_symbol :: "char \<Rightarrow> string" where
  "rank_symbol mode = (case ModeToPrefix mode of None \<Rightarrow> ''undefined'' | Some p \<Rightarrow> p)"

text \<open>
  The loop over the added modes, and its body \<open>mode_add_step\<close>. It carries the state,
  the arguments not yet shifted and the flag set; a rank mode whose argument is no key of the channel's member map
  throws (a property read on \<^verbatim>\<open>undefined\<close>) and keeps what the loop has done so far.
  \<^verbatim>\<open>
  for (let mode of addModes) {
      if (mode == "+") continue;
      if ("vhoaq".includes(mode)) {
          let arg = args.shift();
          if (!arg) continue;
          channelObj.users[arg].prefix += ModeToPrefix[mode];
      } else if ("beI".includes(mode)) {
          let arg = args.shift();
          if (!arg) continue;
          switch (mode) { case "b": channelObj.bans.push(arg); break; ... }
      } else { newModes[mode] = true; }
  }
  \<close>
  \<^verbatim>\<open>args.shift()\<close> on an empty array is \<^verbatim>\<open>undefined\<close>, and \<^verbatim>\<open>!arg\<close> holds for \<^verbatim>\<open>undefined\<close> and
  for the empty string.
\<close>

definition mode_add_step :: "client \<Rightarrow> ref \<Rightarrow> char \<Rightarrow> string list \<Rightarrow> string
    \<Rightarrow> (error \<times> client) + (client \<times> string list \<times> string)" where
  "mode_add_step st c mode args newModes =
     (if mode = CHR ''+'' then Inr (st, args, newModes)
      else if mode \<in> set ''vhoaq'' then
        (case args of
           [] \<Rightarrow> Inr (st, [], newModes)
         | arg # args1 \<Rightarrow>
             if arg = [] then Inr (st, args1, newModes)
             else (case channel_users (channel_heap st c) arg of
                     None \<Rightarrow> Inl (TypeError, st)
                   | Some m \<Rightarrow>
                       Inr (update_member m (\<lambda>x. x\<lparr>prefix := prefix x @ rank_symbol mode\<rparr>) st,
                            args1, newModes)))
      else if mode \<in> set ''beI'' then
        (case args of
           [] \<Rightarrow> Inr (st, [], newModes)
         | arg # args1 \<Rightarrow>
             if arg = [] then Inr (st, args1, newModes)
             else if mode = CHR ''b'' then
               Inr (update_channel c (\<lambda>ch. ch\<lparr>bans := bans ch @ [arg]\<rparr>) st, args1, newModes)
             else if mode = CHR ''e'' then
               Inr (update_channel c (\<lambda>ch. ch\<lparr>excepts := excepts ch @ [arg]\<rparr>) st, args1, newModes)
             else
               Inr (update_channel c (\<lambda>ch. ch\<lparr>inviteExcepts := inviteExcepts ch @ [arg]\<rparr>) st,
                    args1, newModes))
      else Inr (st, args, key_set mode newModes))"

fun mode_add :: "client \<Rightarrow> ref \<Rightarrow> string \<Rightarrow> string list \<Rightarrow> string
    \<Rightarrow> (error \<times> client) + (client \<times> string list \<times> string)" where
  "mode_add st c [] args newModes = Inr (st, args, newModes)"
| "mode_add st c (mode # rest) args newModes =
     (case mode_add_step st c mode args newModes of
        Inl thrown \<Rightarrow> Inl thrown
      | Inr (st1, args1, newModes1) \<Rightarrow> mode_add st1 c rest args1 newModes1)"

text \<open>
  The loop over the removed modes, and its body \<open>mode_remove_step\<close>. A list mode has no \<^verbatim>\<open>if (!arg) continue\<close> here: with
  no argument left the filter compares every entry with \<^verbatim>\<open>undefined\<close> and keeps it.
  \<^verbatim>\<open>
  for (let mode of removeModes) {
      if (mode == "+") continue;
      if ("vhoaq".includes(mode)) {
          let arg = args.shift();
          if (!arg) continue;
          channelObj.users[arg].prefix = channelObj.users[arg].prefix.replace(ModeToPrefix[mode], "");
      } else if ("beI".includes(mode)) {
          let arg = args.shift();
          switch (mode) { case "b": channelObj.bans = channelObj.bans.filter((ban) => ban !== arg); break; ... }
      } else { delete newModes[mode]; }
  }
  \<close>
\<close>

definition mode_remove_step :: "client \<Rightarrow> ref \<Rightarrow> char \<Rightarrow> string list \<Rightarrow> string
    \<Rightarrow> (error \<times> client) + (client \<times> string list \<times> string)" where
  "mode_remove_step st c mode args newModes =
     (if mode = CHR ''+'' then Inr (st, args, newModes)
      else if mode \<in> set ''vhoaq'' then
        (case args of
           [] \<Rightarrow> Inr (st, [], newModes)
         | arg # args1 \<Rightarrow>
             if arg = [] then Inr (st, args1, newModes)
             else (case channel_users (channel_heap st c) arg of
                     None \<Rightarrow> Inl (TypeError, st)
                   | Some m \<Rightarrow>
                       Inr (update_member m (\<lambda>x. x\<lparr>prefix := js_replace (rank_symbol mode) [] (prefix x)\<rparr>) st,
                            args1, newModes)))
      else if mode \<in> set ''beI'' then
        (let arg = (case args of [] \<Rightarrow> None | a # _ \<Rightarrow> Some a);
             args1 = drop 1 args
         in if mode = CHR ''b'' then
              Inr (update_channel c (\<lambda>ch. ch\<lparr>bans := filter (\<lambda>ban. Some ban \<noteq> arg) (bans ch)\<rparr>) st,
                   args1, newModes)
            else if mode = CHR ''e'' then
              Inr (update_channel c
                     (\<lambda>ch. ch\<lparr>excepts := filter (\<lambda>except. Some except \<noteq> arg) (excepts ch)\<rparr>) st,
                   args1, newModes)
            else
              Inr (update_channel c
                     (\<lambda>ch. ch\<lparr>inviteExcepts :=
                        filter (\<lambda>inviteExcept. Some inviteExcept \<noteq> arg) (inviteExcepts ch)\<rparr>) st,
                   args1, newModes))
      else Inr (st, args, key_delete mode newModes))"

fun mode_remove :: "client \<Rightarrow> ref \<Rightarrow> string \<Rightarrow> string list \<Rightarrow> string
    \<Rightarrow> (error \<times> client) + (client \<times> string list \<times> string)" where
  "mode_remove st c [] args newModes = Inr (st, args, newModes)"
| "mode_remove st c (mode # rest) args newModes =
     (case mode_remove_step st c mode args newModes of
        Inl thrown \<Rightarrow> Inl thrown
      | Inr (st1, args1, newModes1) \<Rightarrow> mode_remove st1 c rest args1 newModes1)"

text \<open>
  The handler. With fewer than four parts the mode string is \<^verbatim>\<open>undefined\<close> and the first
  loop over it throws; an unknown channel throws at \<^verbatim>\<open>channelObj.modes\<close>; both before any
  mutation. A source of three characters is a server, whose last argument is a
  timestamp and is popped. The flag set starts from the characters of the mode
  string of the line (\<^verbatim>\<open>incumbentModes\<close> is read and never used).
  \<^verbatim>\<open>
  let newModes = {};
  for (let mode of modes) { if (mode == "+") continue; newModes[mode] = true; }
  let addModes = modes.split("-")[0].slice(1);
  ...
  let removeModes = modes.split("-")[1] || "";
  ...
  channelObj.modes = "+" + Object.keys(newModes).join("");
  this.channels[target] = channelObj;
  \<close>
\<close>

definition handle_MODE :: "client \<Rightarrow> string \<Rightarrow> string list \<Rightarrow> outcome" where
  "handle_MODE st source parts =
     (if length parts < 4 then Threw TypeError st
      else
        let target = parts ! 2;
            ms = parts ! 3;
            args0 = drop 4 parts
        in case channels st target of
             None \<Rightarrow> Threw TypeError st
           | Some c \<Rightarrow>
               let args = (if length source = 3 then butlast args0 else args0);
                   newModes = add_flags ms [];
                   addModes = drop 1 (case js_split ''-'' ms of [] \<Rightarrow> [] | x # _ \<Rightarrow> x);
                   removeModes = (case js_split ''-'' ms of _ # y # _ \<Rightarrow> y | _ \<Rightarrow> [])
               in (case mode_add st c addModes args newModes of
                     Inl (e, st1) \<Rightarrow> Threw e st1
                   | Inr (st1, args1, newModes1) \<Rightarrow>
                       (case mode_remove st1 c removeModes args1 newModes1 of
                          Inl (e, st2) \<Rightarrow> Threw e st2
                        | Inr (st2, args2, newModes2) \<Rightarrow>
                            (let st3 = update_channel c (\<lambda>ch. ch\<lparr>modes := (CHR ''+'' # newModes2)\<rparr>) st2
                             in Done (st3\<lparr>channels := (channels st3)(target \<mapsto> c)\<rparr>)))))"

subsection \<open>The dispatcher\<close>

text \<open>
  \<^verbatim>\<open>_lineHandler\<close>. A destroyed client drops the line. The unsourced commands are tested
  on the first part; a first part that starts with \<^verbatim>\<open>:\<close> gives the source (without the
  colon) and the second part is the command. The blocks of \<^verbatim>\<open>UID\<close>, \<^verbatim>\<open>NICK\<close>, \<^verbatim>\<open>SJOIN\<close> and
  \<^verbatim>\<open>MODE\<close> are modelled, and \<^verbatim>\<open>PING\<close>, which puts its reply at the head of the write queue.
  \<^verbatim>\<open>TOPIC\<close>, \<^verbatim>\<open>EOS\<close>, \<^verbatim>\<open>KILL\<close>, \<^verbatim>\<open>PRIVMSG\<close>, \<^verbatim>\<open>NOTICE\<close> and a command the source does not know
  only call callbacks, so they leave the state as it is. The other commands of the
  source are \<open>NotModelled\<close>.
\<close>

definition not_modelled_commands :: "string list" where
  "not_modelled_commands = [''SID'', ''QUIT'', ''MD'', ''SETHOST'', ''SETIDENT'', ''SETNAME'',
     ''CHGHOST'', ''CHGIDENT'', ''CHGNAME'', ''PART'', ''KICK'', ''SAJOIN'', ''SAPART'',
     ''UMODE2'', ''VERSION'']"

definition lineHandler :: "client \<Rightarrow> string \<Rightarrow> outcome" where
  "lineHandler st line =
     (if destroyed st then Done st
      else
        let parts = js_split '' '' line
        in if parts ! 0 = ''PING'' then
             Done (st\<lparr>writebuffer :=
               (''PONG '' @ (case consumePart parts 1 of None \<Rightarrow> ''undefined'' | Some p \<Rightarrow> p)) # writebuffer st\<rparr>)
           else if parts ! 0 \<in> set [''PROTOCTL'', ''NETINFO'', ''SERVER''] then NotModelled
           else if startsWith (parts ! 0) '':'' then
             let source = drop 1 (parts ! 0);
                 command = consumePart parts 1
             in if command = Some ''UID'' then handle_UID st line parts
                else if command = Some ''NICK'' then handle_NICK st source parts
                else if command = Some ''SJOIN'' then handle_SJOIN st line parts
                else if command = Some ''MODE'' then handle_MODE st source parts
                else if command \<in> Some ` set not_modelled_commands then NotModelled
                else Done st
           else Done st)"

text \<open>The loop of \<^verbatim>\<open>_dataHandler\<close> over the lines: a throw ends it.\<close>

fun run_lines :: "client \<Rightarrow> string list \<Rightarrow> outcome" where
  "run_lines st [] = Done st"
| "run_lines st (l # ls) =
     (case lineHandler st l of Done st1 \<Rightarrow> run_lines st1 ls | other \<Rightarrow> other)"

definition dataHandler :: "client \<Rightarrow> string \<Rightarrow> outcome" where
  "dataHandler st data =
     (if destroyed st then Done st
      else let (buf, lines) = frame (buffer st) data
           in run_lines (st\<lparr>buffer := buf\<rparr>) lines)"

section \<open>The operations of the application\<close>









section \<open>Notions the properties are stated with\<close>

subsection \<open>Outcomes\<close>

text \<open>The state a call leaves, whether it returns or throws.\<close>

fun final_state :: "outcome \<Rightarrow> client option" where
  "final_state (Done st) = Some st"
| "final_state (Threw e st) = Some st"
| "final_state NotModelled = None"

fun loop_state :: "(error \<times> client) + client \<Rightarrow> client" where
  "loop_state (Inl (e, st)) = st"
| "loop_state (Inr st) = st"


subsection \<open>Mode strings\<close>

text \<open>The flags a mode string denotes: its characters other than the sign.\<close>

definition flag_set :: "string \<Rightarrow> char set" where
  "flag_set s = set s - {CHR ''+''}"


subsection \<open>Memberships\<close>

text \<open>
  Invariant 1 of the data model: a membership of a user in the store is, under the
  user's current nickname, the same \<^verbatim>\<open>Member\<close> object in the member map of the channel
  stored under that name.
\<close>

definition membership_invariant :: "client \<Rightarrow> bool" where
  "membership_invariant st =
     (\<forall>k u c m. users st k = Some u \<and> memberships (user_heap st u) c = Some m \<longrightarrow>
        (\<exists>ch. channels st c = Some ch \<and>
              channel_users (channel_heap st ch) (nickname (user_heap st u)) = Some m))"









subsection \<open>States of the examples\<close>

text \<open>
  A state to try the properties on: what a new client holds after a \<^verbatim>\<open>UID\<close> and an
  \<^verbatim>\<open>SJOIN\<close>, one user \<^verbatim>\<open>Auth\<close> who is the one member of \<^verbatim>\<open>#services\<close>, with prefix \<^verbatim>\<open>@+\<close>.
\<close>

definition example_client :: client where
  "example_client =
     (case run_lines (new_client ''999'')
        ['':001 UID Auth 0 1700000000 auth host 999AAAAAA * +i vhost chost AAAA :Auth Serv'',
         '':001 SJOIN 1700000000 #services +nt :@+999AAAAAA'']
      of Done st \<Rightarrow> st | _ \<Rightarrow> new_client ''999'')"





section \<open>Evaluation\<close>

text \<open>The definitions a concrete line unfolds to.\<close>

lemmas line_defs = lineHandler_def js_split_def consumePart_def startsWith_def handle_UID_def
  handle_NICK_def handle_SJOIN_def sjoin_resolve_def handle_MODE_def reconstruct_def parseInt_def is_js_space_def
  digit_value_def digits_value_def round_double_def Let_def sjoin_modes_def sjoin_tokens_def
  js_trim_def sjoin_step_def sjoin_match_def is_word_char_def is_id_char_def update_channel_def
  update_user_def update_member_def new_client_def no_user_def no_channel_def add_flags_def
  key_set_def key_delete_def key_before_def is_index_key_def not_modelled_commands_def
  mode_add_step_def mode_remove_step_def rank_symbol_def ModeToPrefix_def upt_conv_Cons

section \<open>The framer\<close>

text \<open>
  C9 (the framer delivers exactly the complete lines, each once, in order). The code
  does not: when the buffer, after a chunk is appended, ends with the terminator, the
  last element of the split is the empty string, the branch that sees it clears the
  buffer and does not remove it, and the loop hands it to \<^verbatim>\<open>_lineHandler\<close> as a line. The
  chunk \<^verbatim>\<open>PING :abc\r\n\<close> holds one line and two are delivered; so it is when the
  terminator is split between two chunks.
\<close>

theorem frame_delivers_spurious_empty_line:
  "frame [] (''PING :abc'' @ CRLF) = ([], [''PING :abc'', []]) \<and>
   feed [] [''PING :abc'' @ [CHR 0x0D], [CHR 0x0A]] = ([], [''PING :abc'', []])"
  by (simp add: frame_def js_split_def CRLF_def startsWith_def)

section \<open>NICK and the member maps\<close>

text \<open>
  C1 (after every command, a membership of a user is the member stored in the channel
  under the user's nickname, also right after \<^verbatim>\<open>NICK\<close>). The code breaks this at \<^verbatim>\<open>NICK\<close>: the
  block re-keys \<open>usersByNick\<close> and sets the nickname of the user, and leaves every
  channel's member map keyed by the old nickname. From a new client, a \<^verbatim>\<open>UID\<close> and an
  \<^verbatim>\<open>SJOIN\<close> reach a state where the invariant holds; the \<^verbatim>\<open>NICK\<close> that follows returns, and
  the invariant is gone: the member is still under \<^verbatim>\<open>Auth\<close>, nothing is under \<^verbatim>\<open>Auth2\<close>.
\<close>

theorem nick_breaks_membership_invariant:
  "\<exists>st2 st3.
     run_lines (new_client ''999'')
       ['':001 UID Auth 0 1700000000 auth host 999AAAAAA * +i vhost chost AAAA :Auth Serv'',
        '':001 SJOIN 1700000000 #services +nt :@999AAAAAA''] = Done st2 \<and>
     membership_invariant st2 \<and>
     lineHandler st2 '':999AAAAAA NICK Auth2 1700000001'' = Done st3 \<and>
     \<not> membership_invariant st3 \<and>
     users st3 ''999AAAAAA'' = Some 0 \<and>
     nickname (user_heap st3 0) = ''Auth2'' \<and>
     memberships (user_heap st3 0) ''#services'' = Some 0 \<and>
     channels st3 ''#services'' = Some 0 \<and>
     channel_users (channel_heap st3 0) ''Auth2'' = None \<and>
     channel_users (channel_heap st3 0) ''Auth'' = Some 0"
  by (simp add: line_defs membership_invariant_def)

theorem nick_breaks_membership_invariant_witness:
  "\<exists>st. run_lines (new_client ''999'')
       ['':001 UID Auth 0 1700000000 auth host 999AAAAAA * +i vhost chost AAAA :Auth Serv'',
        '':001 SJOIN 1700000000 #services +nt :@999AAAAAA'',
        '':999AAAAAA NICK Auth2 1700000001''] = Done st \<and>
     \<not> membership_invariant st"
proof -
  obtain st2 st3 where
    two: "run_lines (new_client ''999'')
       ['':001 UID Auth 0 1700000000 auth host 999AAAAAA * +i vhost chost AAAA :Auth Serv'',
        '':001 SJOIN 1700000000 #services +nt :@999AAAAAA''] = Done st2"
    and nick: "lineHandler st2 '':999AAAAAA NICK Auth2 1700000001'' = Done st3"
    and broken: "\<not> membership_invariant st3"
    using nick_breaks_membership_invariant by blast
  from two nick have "run_lines (new_client ''999'')
       ['':001 UID Auth 0 1700000000 auth host 999AAAAAA * +i vhost chost AAAA :Auth Serv'',
        '':001 SJOIN 1700000000 #services +nt :@999AAAAAA'',
        '':999AAAAAA NICK Auth2 1700000001''] = Done st3"
    by (auto split: outcome.splits)
  with broken show ?thesis by blast
qed

section \<open>Flag sets\<close>

lemma set_key_set: "set (key_set k ks) = insert k (set ks)"
proof -
  have "set (takeWhile (key_before k) ks) \<union> set (dropWhile (key_before k) ks) = set ks"
    by (metis set_append takeWhile_dropWhile_id)
  then show ?thesis by (auto simp: key_set_def)
qed

lemma distinct_key_set: "distinct ks \<Longrightarrow> distinct (key_set k ks)"
proof -
  assume d: "distinct ks"
  let ?a = "takeWhile (key_before k) ks" and ?b = "dropWhile (key_before k) ks"
  have ab: "?a @ ?b = ks" by simp
  from d have "distinct (?a @ ?b)" by simp
  then have parts: "distinct ?a" "distinct ?b" "set ?a \<inter> set ?b = {}"
    by (simp_all only: distinct_append)
  have sub: "set ?a \<union> set ?b = set ks"
    by (metis ab set_append)
  show ?thesis
  proof (cases "k \<in> set ks")
    case True
    then show ?thesis using d by (simp add: key_set_def)
  next
    case False
    with sub have "k \<notin> set ?a" "k \<notin> set ?b" by blast+
    with parts d False show ?thesis
      by (simp add: key_set_def)
  qed
qed

lemma set_add_flags: "set (add_flags s ks) = set ks \<union> (set s - {CHR ''+''})"
  unfolding add_flags_def
  by (induction s arbitrary: ks) (auto simp: set_key_set)

lemma distinct_add_flags: "distinct ks \<Longrightarrow> distinct (add_flags s ks)"
  unfolding add_flags_def
  by (induction s arbitrary: ks) (auto simp: distinct_key_set)

lemma js_lt_not_eq: "js_lt a b \<Longrightarrow> \<not> js_eq a b"
  by (cases a; cases b) (auto simp: js_eq_def)


section \<open>What the loop of SJOIN leaves alone\<close>

lemma sjoin_step_frame:
  "channels (loop_state (sjoin_step st c nm unsafe i)) = channels st \<and>
   users (loop_state (sjoin_step st c nm unsafe i)) = users st \<and>
   modes (channel_heap (loop_state (sjoin_step st c nm unsafe i)) x) = modes (channel_heap st x)"
  by (auto simp: sjoin_step_def update_channel_def update_user_def Let_def split: option.splits prod.splits)

lemma sjoin_loop_frame:
  "channels (loop_state (sjoin_loop st c nm unsafe toks)) = channels st \<and>
   users (loop_state (sjoin_loop st c nm unsafe toks)) = users st \<and>
   modes (channel_heap (loop_state (sjoin_loop st c nm unsafe toks)) x) = modes (channel_heap st x)"
proof (induction toks arbitrary: st)
  case Nil
  show ?case by simp
next
  case (Cons i toks)
  show ?case
  proof (cases "sjoin_step st c nm unsafe i")
    case (Inl thrown)
    with sjoin_step_frame[of st c nm unsafe i x] show ?thesis
      by (cases thrown) auto
  next
    case (Inr st1)
    with sjoin_step_frame[of st c nm unsafe i x] Cons.IH[of st1] show ?thesis
      by auto
  qed
qed


section \<open>From the line to the handler\<close>

text \<open>A sourced line whose command is \<^verbatim>\<open>SJOIN\<close> or \<^verbatim>\<open>MODE\<close> reaches its handler.\<close>

lemma startsWith_colon_not_command:
  "startsWith p '':'' \<Longrightarrow> p \<noteq> ''PING'' \<and> p \<notin> set [''PROTOCTL'', ''NETINFO'', ''SERVER'']"
  by (auto simp: startsWith_def)

lemma lineHandler_SJOIN:
  assumes "\<not> destroyed st" and "startsWith (js_split '' '' line ! 0) '':''"
    and "1 < length (js_split '' '' line)" and "js_split '' '' line ! 1 = ''SJOIN''"
  shows "lineHandler st line = handle_SJOIN st line (js_split '' '' line)"
  using assms startsWith_colon_not_command[of "js_split '' '' line ! 0"]
  by (simp add: lineHandler_def consumePart_def Let_def)

lemma lineHandler_MODE:
  assumes "\<not> destroyed st" and "startsWith (js_split '' '' line ! 0) '':''"
    and "1 < length (js_split '' '' line)" and "js_split '' '' line ! 1 = ''MODE''"
  shows "lineHandler st line = handle_MODE st (drop 1 (js_split '' '' line ! 0)) (js_split '' '' line)"
  using assms startsWith_colon_not_command[of "js_split '' '' line ! 0"]
  by (simp add: lineHandler_def consumePart_def Let_def)

text \<open>What \<^verbatim>\<open>SJOIN\<close> leaves in the mode string.\<close>

lemma handle_SJOIN_modes:
  assumes "4 < length parts" and "sjoin_resolve st parts = (c, st2, unsafe)"
  shows "\<exists>st'. final_state (handle_SJOIN st line parts) = Some st' \<and>
           modes (channel_heap st' c) = modes (channel_heap st2 c) \<and>
           (handle_SJOIN st line parts = Done st' \<longrightarrow> channels st' (parts ! 3) = Some c)"
proof (cases "sjoin_tokens line parts")
  case None
  with assms show ?thesis
    by (simp add: handle_SJOIN_def)
next
  case (Some toks)
  from sjoin_loop_frame[of st2 c "parts ! 3" unsafe toks c]
  have fr: "modes (channel_heap (loop_state (sjoin_loop st2 c (parts ! 3) unsafe toks)) c) =
      modes (channel_heap st2 c)"
    by simp
  show ?thesis
  proof (cases "sjoin_loop st2 c (parts ! 3) unsafe toks")
    case (Inl thrown)
    with assms Some fr show ?thesis by (cases thrown) (simp add: handle_SJOIN_def)
  next
    case (Inr st3)
    with assms Some fr show ?thesis by (simp add: handle_SJOIN_def)
  qed
qed

lemma sjoin_resolve_existing:
  assumes "channels st (parts ! 3) = Some c"
  shows "\<exists>st2 unsafe. sjoin_resolve st parts = (c, st2, unsafe) \<and>
     modes (channel_heap st2 c) =
       (if js_eq (parseInt (parts ! 2)) (timestamp (channel_heap st c))
        then add_flags (modes (channel_heap st c)) (add_flags (sjoin_modes parts) [])
        else if js_lt (parseInt (parts ! 2)) (timestamp (channel_heap st c))
        then sjoin_modes parts
        else modes (channel_heap st c)) \<and>
     unsafe = (\<not> js_eq (parseInt (parts ! 2)) (timestamp (channel_heap st c)) \<and>
               \<not> js_lt (parseInt (parts ! 2)) (timestamp (channel_heap st c)))"
  using assms by (simp add: sjoin_resolve_def Let_def update_channel_def)



lemma example_client_facts:
  "\<not> destroyed example_client"
  "users example_client ''999AAAAAA'' = Some 0"
  "channels example_client ''#services'' = Some 0"
  "channels example_client ''#x'' = None"
  "nickname (user_heap example_client 0) = ''Auth''"
  "memberships (user_heap example_client 0) ''#services'' = Some 0"
  "timestamp (channel_heap example_client 0) = Fin 1700000000"
  "modes (channel_heap example_client 0) = ''+nt''"
  "bans (channel_heap example_client 0) = []"
  "channel_users (channel_heap example_client 0) ''Auth'' = Some 0"
  "prefix (member_heap example_client 0) = ''@+''"
  by (simp_all add: example_client_def line_defs)

lemmas parse_defs = js_split_def startsWith_def sjoin_modes_def js_eq_def parseInt_def
  is_js_space_def digit_value_def digits_value_def round_double_def Let_def

section \<open>SJOIN: the mode string\<close>

text \<open>
  C3 (an \<^verbatim>\<open>SJOIN\<close> on an existing channel with the local timestamp: the mode string denotes
  the union of the local and the announced flags, each flag once). The line is any
  line the dispatcher takes as an \<^verbatim>\<open>SJOIN\<close> with a part after the channel name (a shorter
  line throws before the modes are read); the mode string is the union whether the
  member loop then returns or throws.
\<close>

theorem sjoin_equal_timestamp_is_union:
  assumes "\<not> destroyed st"
    and "parts = js_split '' '' line"
    and "startsWith (parts ! 0) '':''" and "parts ! 1 = ''SJOIN''" and "4 < length parts"
    and "channels st (parts ! 3) = Some c"
    and "js_eq (parseInt (parts ! 2)) (timestamp (channel_heap st c))"
  shows "\<exists>st'. final_state (lineHandler st line) = Some st' \<and>
           flag_set (modes (channel_heap st' c)) =
             flag_set (modes (channel_heap st c)) \<union> flag_set (sjoin_modes parts) \<and>
           distinct (modes (channel_heap st' c)) \<and>
           (lineHandler st line = Done st' \<longrightarrow> channels st' (parts ! 3) = Some c)"
proof -
  have lh: "lineHandler st line = handle_SJOIN st line parts"
    using assms lineHandler_SJOIN[of st line] by simp
  obtain st2 unsafe where
    res: "sjoin_resolve st parts = (c, st2, unsafe)"
    and m: "modes (channel_heap st2 c) =
       add_flags (modes (channel_heap st c)) (add_flags (sjoin_modes parts) [])"
    using sjoin_resolve_existing[OF assms(6)] assms(7) by auto
  from handle_SJOIN_modes[OF assms(5) res, of line] obtain st' where
    fin: "final_state (handle_SJOIN st line parts) = Some st'"
    and m': "modes (channel_heap st' c) = modes (channel_heap st2 c)"
    and ch: "handle_SJOIN st line parts = Done st' \<longrightarrow> channels st' (parts ! 3) = Some c"
    by blast
  have "flag_set (modes (channel_heap st' c)) =
      flag_set (modes (channel_heap st c)) \<union> flag_set (sjoin_modes parts)"
    unfolding m' m flag_set_def by (auto simp: set_add_flags)
  moreover have "distinct (modes (channel_heap st' c))"
    unfolding m' m by (simp add: distinct_add_flags)
  ultimately show ?thesis using fin ch lh by auto
qed

theorem sjoin_equal_timestamp_is_union_witness:
  "\<exists>st'. final_state (lineHandler example_client '':001 SJOIN 1700000000 #services +ims :'') = Some st' \<and>
     flag_set (modes (channel_heap st' 0)) = flag_set ''+nt'' \<union> flag_set ''+ims'' \<and>
     distinct (modes (channel_heap st' 0)) \<and>
     (lineHandler example_client '':001 SJOIN 1700000000 #services +ims :'' = Done st' \<longrightarrow>
        channels st' ''#services'' = Some 0)"
proof -
  let ?line = "'':001 SJOIN 1700000000 #services +ims :''"
  have parts: "js_split '' '' ?line = ['':001'', ''SJOIN'', ''1700000000'', ''#services'', ''+ims'', '':'']"
    by (simp add: parse_defs)
  have ts: "js_eq (parseInt ''1700000000'') (Fin 1700000000)"
    by (simp add: parse_defs)
  show ?thesis
    using sjoin_equal_timestamp_is_union[of example_client "js_split '' '' ?line" ?line 0] ts
    by (simp add: parts example_client_facts startsWith_def sjoin_modes_def)
qed

text \<open>
  C4 (an \<^verbatim>\<open>SJOIN\<close> on an existing channel with a timestamp below the local one: the mode
  string is the announced one, exactly). The announced mode string is the part after
  the channel name when it starts with \<^verbatim>\<open>+\<close>, and empty otherwise.
\<close>

theorem sjoin_older_timestamp_replaces:
  assumes "\<not> destroyed st"
    and "parts = js_split '' '' line"
    and "startsWith (parts ! 0) '':''" and "parts ! 1 = ''SJOIN''" and "4 < length parts"
    and "channels st (parts ! 3) = Some c"
    and "js_lt (parseInt (parts ! 2)) (timestamp (channel_heap st c))"
  shows "\<exists>st'. final_state (lineHandler st line) = Some st' \<and>
           modes (channel_heap st' c) = sjoin_modes parts \<and>
           (lineHandler st line = Done st' \<longrightarrow> channels st' (parts ! 3) = Some c)"
proof -
  have lh: "lineHandler st line = handle_SJOIN st line parts"
    using assms lineHandler_SJOIN[of st line] by simp
  obtain st2 unsafe where
    res: "sjoin_resolve st parts = (c, st2, unsafe)"
    and m: "modes (channel_heap st2 c) = sjoin_modes parts"
    using sjoin_resolve_existing[OF assms(6)] js_lt_not_eq[OF assms(7)] assms(7) by auto
  from handle_SJOIN_modes[OF assms(5) res, of line] m lh show ?thesis
    by auto
qed

theorem sjoin_older_timestamp_replaces_witness:
  "\<exists>st'. final_state (lineHandler example_client '':001 SJOIN 1600000000 #services +ims :'') = Some st' \<and>
     modes (channel_heap st' 0) = ''+ims'' \<and>
     (lineHandler example_client '':001 SJOIN 1600000000 #services +ims :'' = Done st' \<longrightarrow>
        channels st' ''#services'' = Some 0)"
proof -
  let ?line = "'':001 SJOIN 1600000000 #services +ims :''"
  have parts: "js_split '' '' ?line = ['':001'', ''SJOIN'', ''1600000000'', ''#services'', ''+ims'', '':'']"
    by (simp add: parse_defs)
  have ts: "js_lt (parseInt ''1600000000'') (Fin 1700000000)"
    by (simp add: parse_defs)
  show ?thesis
    using sjoin_older_timestamp_replaces[of example_client "js_split '' '' ?line" ?line 0] ts
    by (simp add: parts example_client_facts startsWith_def sjoin_modes_def)
qed

section \<open>MODE: the flag set\<close>






section \<open>The shape of the stored mode string\<close>




section \<open>MODE: one mode on a line\<close>

lemma split_dash_add: "m \<noteq> CHR ''-'' \<Longrightarrow> js_split ''-'' [CHR ''+'', m] = [[CHR ''+'', m]]"
  by (simp add: js_split_def startsWith_def)

lemma split_dash_remove: "m \<noteq> CHR ''-'' \<Longrightarrow> js_split ''-'' [CHR ''-'', m] = [[], [m]]"
  by (simp add: js_split_def startsWith_def)

text \<open>The arguments of a \<^verbatim>\<open>MODE\<close> once the timestamp of a server is popped.\<close>

lemma popped_args:
  assumes "length source = 3 \<longrightarrow> extra \<noteq> []"
  shows "(if length source = 3 then butlast (arg # extra) else arg # extra) =
         arg # (if length source = 3 then butlast extra else extra)"
  using assms by simp

lemma mode_grant_line:
  assumes "m \<in> set ''vhoaq''" and "channels st target = Some c"
    and "channel_users (channel_heap st c) arg = Some r" and "arg \<noteq> []"
    and "length source = 3 \<longrightarrow> extra \<noteq> []"
  shows "\<exists>st1. handle_MODE st source ([p0, p1, target, [CHR ''+'', m], arg] @ extra) = Done st1 \<and>
     member_heap st1 = (member_heap st)(r := (member_heap st r)\<lparr>prefix := prefix (member_heap st r) @ rank_symbol m\<rparr>) \<and>
     channels st1 target = Some c \<and> destroyed st1 = destroyed st \<and>
     channel_users (channel_heap st1 c) = channel_users (channel_heap st c)"
proof -
  from assms(1) have ne: "m \<noteq> CHR ''+''" "m \<noteq> CHR ''-''" by auto
  show ?thesis
    using assms(2-4) ne
    by (simp add: handle_MODE_def split_dash_add popped_args[OF assms(5)] mode_add_step_def assms(1)
        update_member_def update_channel_def Let_def del: set_simps)
qed

lemma mode_revoke_line:
  assumes "m \<in> set ''vhoaq''" and "channels st target = Some c"
    and "channel_users (channel_heap st c) arg = Some r" and "arg \<noteq> []"
    and "length source = 3 \<longrightarrow> extra \<noteq> []"
  shows "\<exists>st1. handle_MODE st source ([p0, p1, target, [CHR ''-'', m], arg] @ extra) = Done st1 \<and>
     member_heap st1 = (member_heap st)(r := (member_heap st r)\<lparr>prefix := js_replace (rank_symbol m) [] (prefix (member_heap st r))\<rparr>) \<and>
     channels st1 target = Some c \<and> destroyed st1 = destroyed st \<and>
     channel_users (channel_heap st1 c) = channel_users (channel_heap st c)"
proof -
  from assms(1) have ne: "m \<noteq> CHR ''+''" "m \<noteq> CHR ''-''" by auto
  show ?thesis
    using assms(2-4) ne
    by (simp add: handle_MODE_def split_dash_remove popped_args[OF assms(5)] mode_remove_step_def assms(1)
        update_member_def update_channel_def Let_def del: set_simps)
qed

lemma mode_list_remove_line:
  assumes "m \<in> set ''beI''" and "channels st target = Some c"
  shows "\<exists>st1. handle_MODE st source ([p0, p1, target, [CHR ''-'', m]] @ args) = Done st1 \<and>
     channels st1 target = Some c \<and> destroyed st1 = destroyed st \<and>
     (let arg = (case (if length source = 3 then butlast args else args) of [] \<Rightarrow> None | a # _ \<Rightarrow> Some a)
      in bans (channel_heap st1 c) =
           (if m = CHR ''b'' then filter (\<lambda>x. Some x \<noteq> arg) (bans (channel_heap st c))
            else bans (channel_heap st c)) \<and>
         excepts (channel_heap st1 c) =
           (if m = CHR ''e'' then filter (\<lambda>x. Some x \<noteq> arg) (excepts (channel_heap st c))
            else excepts (channel_heap st c)) \<and>
         inviteExcepts (channel_heap st1 c) =
           (if m = CHR ''I'' then filter (\<lambda>x. Some x \<noteq> arg) (inviteExcepts (channel_heap st c))
            else inviteExcepts (channel_heap st c)))"
proof -
  from assms(1) have ne: "m \<noteq> CHR ''+''" "m \<noteq> CHR ''-''" "m \<notin> set ''vhoaq''" by auto
  from assms(1) have cases: "m = CHR ''b'' \<or> m = CHR ''e'' \<or> m = CHR ''I''" by auto
  show ?thesis
    using assms(2) ne cases
    by (auto simp add: handle_MODE_def split_dash_remove mode_remove_step_def
        update_channel_def Let_def)
qed

text \<open>The removal of a list mode, as the loop does it for any mode string and arguments.\<close>

lemma mode_remove_step_list:
  assumes "m \<in> set ''beI''"
  shows "\<exists>st1. mode_remove_step st c m args newModes = Inr (st1, drop 1 args, newModes) \<and>
     (let arg = (case args of [] \<Rightarrow> None | a # _ \<Rightarrow> Some a)
      in bans (channel_heap st1 c) =
           (if m = CHR ''b'' then filter (\<lambda>x. Some x \<noteq> arg) (bans (channel_heap st c))
            else bans (channel_heap st c)) \<and>
         excepts (channel_heap st1 c) =
           (if m = CHR ''e'' then filter (\<lambda>x. Some x \<noteq> arg) (excepts (channel_heap st c))
            else excepts (channel_heap st c)) \<and>
         inviteExcepts (channel_heap st1 c) =
           (if m = CHR ''I'' then filter (\<lambda>x. Some x \<noteq> arg) (inviteExcepts (channel_heap st c))
            else inviteExcepts (channel_heap st c)))"
proof -
  from assms have ne: "m \<noteq> CHR ''+''" "m \<notin> set ''vhoaq''" by auto
  from assms have cases: "m = CHR ''b'' \<or> m = CHR ''e'' \<or> m = CHR ''I''" by auto
  show ?thesis
    using ne cases by (auto simp add: mode_remove_step_def update_channel_def Let_def)
qed

lemma mode_ban_add_line:
  assumes "channels st target = Some c" and "length source = 3 \<longrightarrow> extra \<noteq> []"
  shows "\<exists>st1. handle_MODE st source ([p0, p1, target, ''+b'', ban] @ extra) = Done st1 \<and>
     channels st1 target = Some c \<and> destroyed st1 = destroyed st \<and>
     bans (channel_heap st1 c) = bans (channel_heap st c) @ (if ban = [] then [] else [ban])"
  using assms(1)
  by (simp add: handle_MODE_def split_dash_add popped_args[OF assms(2)] mode_add_step_def
      update_channel_def Let_def)

lemma js_replace_single: "js_replace [s] [] p = remove1 s p"
  by (induction p) (auto simp: startsWith_def)

lemma rank_symbol_single: "m \<in> set ''vhoaq'' \<Longrightarrow> \<exists>s. rank_symbol m = [s]"
  by (auto simp: rank_symbol_def ModeToPrefix_def)

lemma remove1_appended: "s \<notin> set p \<Longrightarrow> remove1 s (p @ [s]) = p"
  by (induction p) auto

section \<open>MODE: ranks\<close>

text \<open>
  C6 (a \<^verbatim>\<open>MODE\<close> that grants a rank to a member, then a \<^verbatim>\<open>MODE\<close> that revokes it, leave the
  prefix as it was, for every starting prefix). As stated it fails (see the
  counterexample below): the grant appends the symbol and the revoke removes its first
  occurrence, which is another one when the member held the rank already. What
  holds: the two lines return, the prefix afterwards is the starting prefix with the
  symbol appended and its first occurrence removed, and that is the starting prefix
  when the symbol does not occur in it. The argument is the key of the member in the
  channel's member map and is not empty (the loop skips an empty argument); a server
  (a source of three characters) sends a timestamp after it.
\<close>

theorem rank_grant_then_revoke:
  assumes "\<not> destroyed st" and "m \<in> set ''vhoaq''"
    and "js_split '' '' line1 = [CHR '':'' # source1, ''MODE'', target, [CHR ''+'', m], arg] @ extra1"
    and "js_split '' '' line2 = [CHR '':'' # source2, ''MODE'', target, [CHR ''-'', m], arg] @ extra2"
    and "length source1 = 3 \<longrightarrow> extra1 \<noteq> []" and "length source2 = 3 \<longrightarrow> extra2 \<noteq> []"
    and "channels st target = Some c" and "channel_users (channel_heap st c) arg = Some r"
    and "arg \<noteq> []"
  shows "\<exists>st1 st2 s. lineHandler st line1 = Done st1 \<and> lineHandler st1 line2 = Done st2 \<and>
           rank_symbol m = [s] \<and>
           prefix (member_heap st2 r) = remove1 s (prefix (member_heap st r) @ [s]) \<and>
           (s \<notin> set (prefix (member_heap st r)) \<longrightarrow>
              prefix (member_heap st2 r) = prefix (member_heap st r))"
proof -
  from rank_symbol_single[OF assms(2)] obtain s where s: "rank_symbol m = [s]" by blast
  have h1: "lineHandler st line1 =
      handle_MODE st source1 ([CHR '':'' # source1, ''MODE'', target, [CHR ''+'', m], arg] @ extra1)"
    using lineHandler_MODE[of st line1] assms(1,3) by (simp add: startsWith_def)
  from mode_grant_line[OF assms(2,7,8,9,5), of "CHR '':'' # source1" "''MODE''"] h1
  obtain st1 where
    d1: "lineHandler st line1 = Done st1"
    and mh1: "member_heap st1 = (member_heap st)(r := (member_heap st r)\<lparr>prefix := prefix (member_heap st r) @ rank_symbol m\<rparr>)"
    and c1: "channels st1 target = Some c" and nd1: "\<not> destroyed st1"
    and cu1: "channel_users (channel_heap st1 c) arg = Some r"
    using assms(1,8) by auto
  have h2: "lineHandler st1 line2 =
      handle_MODE st1 source2 ([CHR '':'' # source2, ''MODE'', target, [CHR ''-'', m], arg] @ extra2)"
    using lineHandler_MODE[of st1 line2] nd1 assms(4) by (simp add: startsWith_def)
  from mode_revoke_line[OF assms(2) c1 cu1 assms(9,6), of "CHR '':'' # source2" "''MODE''"] h2
  obtain st2 where
    d2: "lineHandler st1 line2 = Done st2"
    and mh2: "member_heap st2 = (member_heap st1)(r := (member_heap st1 r)\<lparr>prefix := js_replace (rank_symbol m) [] (prefix (member_heap st1 r))\<rparr>)"
    by auto
  have p: "prefix (member_heap st2 r) = remove1 s (prefix (member_heap st r) @ [s])"
    by (simp add: mh2 mh1 s js_replace_single)
  with d1 d2 s show ?thesis
    by (auto simp: remove1_appended)
qed

theorem rank_grant_then_revoke_witness:
  "\<exists>st1 st2 s. lineHandler example_client '':999AAAAAA MODE #services +h Auth'' = Done st1 \<and>
     lineHandler st1 '':001 MODE #services -h Auth 1700000005'' = Done st2 \<and>
     rank_symbol (CHR ''h'') = [s] \<and>
     prefix (member_heap st2 0) = remove1 s (''@+'' @ [s]) \<and>
     prefix (member_heap st2 0) = ''@+''"
proof -
  have l1: "js_split '' '' '':999AAAAAA MODE #services +h Auth'' =
      [CHR '':'' # ''999AAAAAA'', ''MODE'', ''#services'', [CHR ''+'', CHR ''h''], ''Auth''] @ []"
    by (simp add: parse_defs)
  have l2: "js_split '' '' '':001 MODE #services -h Auth 1700000005'' =
      [CHR '':'' # ''001'', ''MODE'', ''#services'', [CHR ''-'', CHR ''h''], ''Auth''] @ [''1700000005'']"
    by (simp add: parse_defs)
  from rank_grant_then_revoke[OF _ _ l1 l2, of example_client 0 0] show ?thesis
    by (auto simp: example_client_facts rank_symbol_def ModeToPrefix_def)
qed

text \<open>
  The counterexample to C6 as stated: \<^verbatim>\<open>Auth\<close> holds \<^verbatim>\<open>@+\<close> (operator, then voice); a grant
  and a revoke of \<^verbatim>\<open>o\<close> leave \<^verbatim>\<open>+@\<close>.
\<close>

theorem rank_grant_then_revoke_reorders:
  "\<exists>st1 st2. lineHandler example_client '':999AAAAAA MODE #services +o Auth'' = Done st1 \<and>
     lineHandler st1 '':999AAAAAA MODE #services -o Auth'' = Done st2 \<and>
     prefix (member_heap example_client 0) = ''@+'' \<and>
     prefix (member_heap st2 0) = ''+@''"
  by (simp add: example_client_def line_defs)

section \<open>MODE: lists\<close>

text \<open>
  C7 (a removing \<^verbatim>\<open>MODE\<close> of a list mode deletes the entries equal to its argument and no
  others; on an empty ban list, \<^verbatim>\<open>+b\<close> with a mask and then \<^verbatim>\<open>-b\<close> with the same mask leave
  the list empty). Three statements: the removal as the loop does it, for any mode
  string it occurs in and any arguments left; a line that removes one list mode; and
  the two lines on the empty ban list. The argument of a removal is the first
  argument left (on the line, once the timestamp of a server is popped), and
  \<^verbatim>\<open>undefined\<close> (\<open>None\<close>) when none is left. In the third statement \<open>ban\<close> is the
  mask, and a server sends a timestamp after it.
\<close>

theorem list_mode_removal_is_exact:
  assumes "\<not> destroyed st" and "channels st target = Some c" and "m \<in> set ''beI''"
    and "js_split '' '' line = [CHR '':'' # source, ''MODE'', target, [CHR ''-'', m]] @ args"
    and "js_split '' '' line_add = [CHR '':'' # source1, ''MODE'', target, ''+b'', ban] @ extra1"
    and "js_split '' '' line_remove = [CHR '':'' # source2, ''MODE'', target, ''-b'', ban] @ extra2"
    and "length source1 = 3 \<longrightarrow> extra1 \<noteq> []" and "length source2 = 3 \<longrightarrow> extra2 \<noteq> []"
  shows "(\<forall>left newModes. \<exists>st1.
            mode_remove_step st c m left newModes = Inr (st1, drop 1 left, newModes) \<and>
            (let arg = (case left of [] \<Rightarrow> None | a # _ \<Rightarrow> Some a)
             in bans (channel_heap st1 c) =
                  (if m = CHR ''b'' then filter (\<lambda>x. Some x \<noteq> arg) (bans (channel_heap st c))
                   else bans (channel_heap st c)) \<and>
                excepts (channel_heap st1 c) =
                  (if m = CHR ''e'' then filter (\<lambda>x. Some x \<noteq> arg) (excepts (channel_heap st c))
                   else excepts (channel_heap st c)) \<and>
                inviteExcepts (channel_heap st1 c) =
                  (if m = CHR ''I'' then filter (\<lambda>x. Some x \<noteq> arg) (inviteExcepts (channel_heap st c))
                   else inviteExcepts (channel_heap st c)))) \<and>
         (\<exists>st'. lineHandler st line = Done st' \<and>
            (let arg = (case (if length source = 3 then butlast args else args) of
                          [] \<Rightarrow> None | a # _ \<Rightarrow> Some a)
             in bans (channel_heap st' c) =
                  (if m = CHR ''b'' then filter (\<lambda>x. Some x \<noteq> arg) (bans (channel_heap st c))
                   else bans (channel_heap st c)) \<and>
                excepts (channel_heap st' c) =
                  (if m = CHR ''e'' then filter (\<lambda>x. Some x \<noteq> arg) (excepts (channel_heap st c))
                   else excepts (channel_heap st c)) \<and>
                inviteExcepts (channel_heap st' c) =
                  (if m = CHR ''I'' then filter (\<lambda>x. Some x \<noteq> arg) (inviteExcepts (channel_heap st c))
                   else inviteExcepts (channel_heap st c)))) \<and>
         (bans (channel_heap st c) = [] \<longrightarrow>
            (\<exists>st1 st2. lineHandler st line_add = Done st1 \<and> lineHandler st1 line_remove = Done st2 \<and>
               bans (channel_heap st2 c) = []))"
proof (intro conjI impI allI)
  fix left newModes
  from mode_remove_step_list[OF assms(3), of st c left newModes]
  show "\<exists>st1. mode_remove_step st c m left newModes = Inr (st1, drop 1 left, newModes) \<and>
            (let arg = (case left of [] \<Rightarrow> None | a # _ \<Rightarrow> Some a)
             in bans (channel_heap st1 c) =
                  (if m = CHR ''b'' then filter (\<lambda>x. Some x \<noteq> arg) (bans (channel_heap st c))
                   else bans (channel_heap st c)) \<and>
                excepts (channel_heap st1 c) =
                  (if m = CHR ''e'' then filter (\<lambda>x. Some x \<noteq> arg) (excepts (channel_heap st c))
                   else excepts (channel_heap st c)) \<and>
                inviteExcepts (channel_heap st1 c) =
                  (if m = CHR ''I'' then filter (\<lambda>x. Some x \<noteq> arg) (inviteExcepts (channel_heap st c))
                   else inviteExcepts (channel_heap st c)))" .
next
  have h: "lineHandler st line =
      handle_MODE st source ([CHR '':'' # source, ''MODE'', target, [CHR ''-'', m]] @ args)"
    using lineHandler_MODE[of st line] assms(1,4) by (simp add: startsWith_def)
  from mode_list_remove_line[OF assms(3,2), of source "CHR '':'' # source" "''MODE''" args] h
  show "\<exists>st'. lineHandler st line = Done st' \<and>
            (let arg = (case (if length source = 3 then butlast args else args) of
                          [] \<Rightarrow> None | a # _ \<Rightarrow> Some a)
             in bans (channel_heap st' c) =
                  (if m = CHR ''b'' then filter (\<lambda>x. Some x \<noteq> arg) (bans (channel_heap st c))
                   else bans (channel_heap st c)) \<and>
                excepts (channel_heap st' c) =
                  (if m = CHR ''e'' then filter (\<lambda>x. Some x \<noteq> arg) (excepts (channel_heap st c))
                   else excepts (channel_heap st c)) \<and>
                inviteExcepts (channel_heap st' c) =
                  (if m = CHR ''I'' then filter (\<lambda>x. Some x \<noteq> arg) (inviteExcepts (channel_heap st c))
                   else inviteExcepts (channel_heap st c)))"
    by (auto simp: Let_def)
next
  assume empty: "bans (channel_heap st c) = []"
  have h1: "lineHandler st line_add =
      handle_MODE st source1 ([CHR '':'' # source1, ''MODE'', target, ''+b'', ban] @ extra1)"
    using lineHandler_MODE[of st line_add] assms(1,5) by (simp add: startsWith_def)
  from mode_ban_add_line[OF assms(2,7), of "CHR '':'' # source1" "''MODE''" ban] h1 empty
  obtain st1 where
    d1: "lineHandler st line_add = Done st1"
    and c1: "channels st1 target = Some c" and nd1: "\<not> destroyed st1"
    and b1: "bans (channel_heap st1 c) = (if ban = [] then [] else [ban])"
    using assms(1) by auto
  have h2: "lineHandler st1 line_remove =
      handle_MODE st1 source2 ([CHR '':'' # source2, ''MODE'', target, [CHR ''-'', CHR ''b'']] @ (ban # extra2))"
    using lineHandler_MODE[of st1 line_remove] nd1 assms(6) by (simp add: startsWith_def)
  have "CHR ''b'' \<in> set ''beI''" by simp
  from mode_list_remove_line[OF this c1, of source2 "CHR '':'' # source2" "''MODE''" "ban # extra2"] h2
  obtain st2 where
    d2: "lineHandler st1 line_remove = Done st2"
    and b2: "bans (channel_heap st2 c) =
      filter (\<lambda>x. Some x \<noteq> (case (if length source2 = 3 then butlast (ban # extra2) else ban # extra2) of
                [] \<Rightarrow> None | a # _ \<Rightarrow> Some a)) (bans (channel_heap st1 c))"
    by (auto simp: Let_def)
  from b2 b1 assms(8) have "bans (channel_heap st2 c) = []"
    by (auto split: if_splits)
  with d1 d2 show "\<exists>st1 st2. lineHandler st line_add = Done st1 \<and> lineHandler st1 line_remove = Done st2 \<and>
               bans (channel_heap st2 c) = []"
    by blast
qed

theorem list_mode_removal_is_exact_witness:
  "\<exists>st1 st2. lineHandler example_client '':999AAAAAA MODE #services +b *!*@bad.example'' = Done st1 \<and>
     bans (channel_heap st1 0) = [''*!*@bad.example''] \<and>
     lineHandler st1 '':999AAAAAA MODE #services -b *!*@bad.example'' = Done st2 \<and>
     bans (channel_heap st2 0) = [] \<and>
     excepts (channel_heap st2 0) = excepts (channel_heap st1 0)"
proof -
  let ?add = "'':999AAAAAA MODE #services +b *!*@bad.example''"
  let ?rem = "'':999AAAAAA MODE #services -b *!*@bad.example''"
  have la: "js_split '' '' ?add =
      [CHR '':'' # ''999AAAAAA'', ''MODE'', ''#services'', ''+b'', ''*!*@bad.example''] @ []"
    by (simp add: parse_defs)
  have lr: "js_split '' '' ?rem =
      [CHR '':'' # ''999AAAAAA'', ''MODE'', ''#services'', [CHR ''-'', CHR ''b'']] @ [''*!*@bad.example'']"
    by (simp add: parse_defs)
  have lr2: "js_split '' '' ?rem =
      [CHR '':'' # ''999AAAAAA'', ''MODE'', ''#services'', ''-b'', ''*!*@bad.example''] @ []"
    by (simp add: parse_defs)
  have "\<exists>st1. lineHandler example_client ?add = Done st1 \<and> \<not> destroyed st1 \<and>
      channels st1 ''#services'' = Some 0 \<and> bans (channel_heap st1 0) = [''*!*@bad.example'']"
    by (simp add: example_client_def line_defs)
  then obtain st1 where
    d1: "lineHandler example_client ?add = Done st1" and nd1: "\<not> destroyed st1"
    and c1: "channels st1 ''#services'' = Some 0"
    and b1: "bans (channel_heap st1 0) = [''*!*@bad.example'']"
    by blast
  from list_mode_removal_is_exact[OF nd1 c1 _ lr la lr2] b1
  have "\<exists>st2. lineHandler st1 ?rem = Done st2 \<and> bans (channel_heap st2 0) = [] \<and>
      excepts (channel_heap st2 0) = excepts (channel_heap st1 0)"
    by (auto simp: Let_def)
  with d1 b1 show ?thesis by blast
qed

section \<open>sjoinToChannel\<close>

















section \<open>SJOIN: a burst newer than the local channel\<close>











end
